theory Spec2Isabelle
  imports Complex_Main "HOL-Library.Sublist" "HOL-Library.Log_Nat"
begin

section \<open>Hangman: the data model of main.cpp\<close>

text \<open>
  A shallow embedding of the guessing game of \<^verbatim>\<open>src/src/main.cpp\<close>. The structs
  \<^verbatim>\<open>WordItem\<close>, \<^verbatim>\<open>GameState\<close> and \<^verbatim>\<open>PlayerState\<close> are records with the fields of
  the source. A \<^verbatim>\<open>std::string\<close> is a \<open>string\<close> (a list of 8-bit characters). An
  \<^verbatim>\<open>int\<close> is an \<open>int\<close>, and every arithmetic operation of the source on it goes
  through \<open>wrap32\<close>, the two's complement wrap-around of a 32-bit signed integer. A
  \<^verbatim>\<open>double\<close> is the rational number that the IEEE binary64 value stands for, and
  every operation of the source on it rounds its exact result to binary64.
\<close>

definition INT_MAX :: int where
  "INT_MAX = 2147483647"

definition wrap32 :: "int \<Rightarrow> int" where
  "wrap32 x = (x + 2147483648) mod 4294967296 - 2147483648"

text \<open>Division of C++ on \<^verbatim>\<open>int\<close> truncates towards zero.\<close>

definition cdiv :: "int \<Rightarrow> int \<Rightarrow> int" where
  "cdiv a b = sgn a * sgn b * (\<bar>a\<bar> div \<bar>b\<bar>)"

subsection \<open>Double precision\<close>

text \<open>
  A finite binary64 value is \<open>m * 2 ^ e\<close> with an integer \<open>m\<close> of at most 53 bits; the
  two zeros are not told apart. \<open>ilog2 q\<close> is the exponent of the power of two at or
  below a positive \<open>q\<close>. \<open>double_round\<close> rounds to the nearest binary64 value, a tie to
  the one with the even significand, as the default rounding mode does. Below
  \<open>2 ^ - 1022\<close> the spacing stays that of the subnormal numbers. There is no infinity:
  the operands here are 32-bit integers and 100, so that no result comes near
  \<open>2 ^ 1024\<close>, and the source tests the divisor against zero before it divides.
\<close>

type_synonym double = rat

definition ilog2 :: "rat \<Rightarrow> int" where
  "ilog2 q = (if 1 \<le> q then bitlen \<lfloor>q\<rfloor> - 1 else - bitlen (\<lceil>1 / q\<rceil> - 1))"

definition round_ties_even :: "rat \<Rightarrow> int" where
  "round_ties_even q =
     (let f = \<lfloor>q\<rfloor>; d = q - of_int f
      in if d < 1 / 2 then f else if 1 / 2 < d then f + 1 else if even f then f else f + 1)"

definition double_round :: "rat \<Rightarrow> double" where
  "double_round x =
     (if x = 0 then 0
      else let ulp = 2 powi (max (ilog2 \<bar>x\<bar>) (- 1022) - 52)
           in sgn x * of_int (round_ties_even (\<bar>x\<bar> / ulp)) * ulp)"

text \<open>The conversion of an \<^verbatim>\<open>int\<close>, the division and the multiplication of doubles.\<close>

definition double_of_int :: "int \<Rightarrow> double" where
  "double_of_int n = double_round (of_int n)"

definition double_div :: "double \<Rightarrow> double \<Rightarrow> double" where
  "double_div a b = double_round (a / b)"

definition double_mul :: "double \<Rightarrow> double \<Rightarrow> double" where
  "double_mul a b = double_round (a * b)"

text \<open>
  The expression \<^verbatim>\<open>static_cast<double>(n) / totalRounds * 100\<close>, which
  \<^verbatim>\<open>gameStats\<close> and \<^verbatim>\<open>endGameDisplay\<close> evaluate for the won and for the lost rounds:
  the quotient is rounded, then the product.
\<close>

definition percentage :: "int \<Rightarrow> int \<Rightarrow> double" where
  "percentage n rounds =
     double_mul (double_div (double_of_int n) (double_of_int rounds)) (double_of_int 100)"

subsection \<open>The structs\<close>

record WordItem =
  word :: string
  hint :: string

record GameState =
  chosenWord :: string
  guessedLetters :: string
  chosenHint :: string
  incorrectGuesses :: int
  maxGuesses :: int
  wordGuessed :: bool
  wonRounds :: int
  lostRounds :: int
  totalRounds :: int
  winRate :: double
  lossRate :: double

text \<open>The constructor \<^verbatim>\<open>GameState(int maxGuesses)\<close> with the default member initialisers.\<close>

definition GameState_ctor :: "int \<Rightarrow> GameState" where
  "GameState_ctor mg =
     \<lparr>chosenWord = [], guessedLetters = [], chosenHint = [], incorrectGuesses = 0,
      maxGuesses = mg, wordGuessed = False, wonRounds = 0, lostRounds = 0,
      totalRounds = 0, winRate = 0, lossRate = 0\<rparr>"

record PlayerState =
  state :: GameState
  playerName :: string
  totalWins :: int
  totalLosses :: int

definition PlayerState_ctor :: "GameState \<Rightarrow> string \<Rightarrow> PlayerState" where
  "PlayerState_ctor st name =
     \<lparr>state = st, playerName = name, totalWins = 0, totalLosses = 0\<rparr>"

text \<open>
  The source keeps no outcome field. A round is over when \<^verbatim>\<open>wordGuessed\<close> is set or
  when \<^verbatim>\<open>incorrectGuesses\<close> has reached \<^verbatim>\<open>maxGuesses\<close>; the game loops test exactly
  \<^verbatim>\<open>incorrectGuesses < maxGuesses && !wordGuessed\<close>, and \<^verbatim>\<open>endGameDisplay\<close> tests
  \<^verbatim>\<open>wordGuessed\<close> first and \<^verbatim>\<open>incorrectGuesses >= maxGuesses\<close> second.
\<close>

datatype Outcome = Unresolved | Won | Lost

definition outcome :: "GameState \<Rightarrow> Outcome" where
  "outcome s =
     (if wordGuessed s then Won
      else if incorrectGuesses s \<ge> maxGuesses s then Lost
      else Unresolved)"

section \<open>Characters and console input\<close>

text \<open>\<^verbatim>\<open>toupper\<close>, \<^verbatim>\<open>isdigit\<close> and \<^verbatim>\<open>islower\<close> of the C locale, on character codes.\<close>

definition toupper :: "char \<Rightarrow> char" where
  "toupper c =
     (let n = (of_char c :: nat) in if 97 \<le> n \<and> n \<le> 122 then char_of (n - 32) else c)"

definition isdigit :: "char \<Rightarrow> bool" where
  "isdigit c = (let n = (of_char c :: nat) in 48 \<le> n \<and> n \<le> 57)"

definition islower :: "char \<Rightarrow> bool" where
  "islower c = (let n = (of_char c :: nat) in 97 \<le> n \<and> n \<le> 122)"

definition convertToUpper :: "string \<Rightarrow> string" where
  "convertToUpper str = map toupper str"

text \<open>A string is uppercase-normalised when none of its characters is a lowercase letter.\<close>

definition upperNormalized :: "string \<Rightarrow> bool" where
  "upperNormalized str = list_all (\<lambda>c. \<not> islower c) str"

text \<open>
  The console input is the list of the lines still to be read. \<^verbatim>\<open>input[0]\<close> of an
  empty \<^verbatim>\<open>std::string\<close> is the terminating NUL character.
\<close>

definition firstChar :: "string \<Rightarrow> char" where
  "firstChar input = (case input of [] \<Rightarrow> CHR 0x00 | c # _ \<Rightarrow> c)"

text \<open>
  \<^verbatim>\<open>getline\<close> at the end of the input fails and leaves the string empty.
\<close>

definition getline :: "string list \<Rightarrow> string \<times> string list" where
  "getline lines = (case lines of [] \<Rightarrow> ([], []) | l # ls \<Rightarrow> (l, ls))"

text \<open>
  \<^verbatim>\<open>getValidatedInput\<close> reads lines until one is valid. At the end of the input
  every further \<^verbatim>\<open>getline\<close> yields the empty string, which is invalid, so the loop of
  the source never returns: that is the value \<open>None\<close>.
\<close>

fun getValidatedInput :: "string \<Rightarrow> string list \<Rightarrow> (char \<times> string list) option" where
  "getValidatedInput validOptions [] = None"
| "getValidatedInput validOptions (input # rest) =
     (if isdigit (firstChar input) \<and> firstChar input \<in> set validOptions
      then Some (firstChar input, rest)
      else if length input = 1 \<and>
              (toupper (firstChar input) \<in> set validOptions \<or> firstChar input = CHR ''1'')
      then Some (toupper (firstChar input), rest)
      else getValidatedInput validOptions rest)"

section \<open>The guessing state machine\<close>

text \<open>What a guess prints on the console, one constructor per message of the source.\<close>

datatype Message =
    AlreadyGuessed char
  | LetterIncorrect char
  | LetterCorrect char
  | WordCorrect string
  | WordIncorrect string

definition wordGuess :: "GameState \<Rightarrow> string \<Rightarrow> GameState \<times> bool \<times> Message" where
  "wordGuess s fullGuess =
     (if fullGuess = chosenWord s
      then (s\<lparr>wordGuessed := True\<rparr>, True, WordCorrect (chosenWord s))
      else (s\<lparr>incorrectGuesses := maxGuesses s\<rparr>, False, WordIncorrect (chosenWord s)))"

definition checkWordGuessed :: "GameState \<Rightarrow> GameState \<times> bool" where
  "checkWordGuessed s =
     (if list_all (\<lambda>letter. letter \<in> set (guessedLetters s)) (chosenWord s)
      then (s\<lparr>wordGuessed := True\<rparr>, True)
      else (s, False))"

definition handleCharacterGuess :: "GameState \<Rightarrow> char \<Rightarrow> GameState \<times> bool \<times> Message" where
  "handleCharacterGuess s guess =
     (if guess \<in> set (guessedLetters s) then (s, False, AlreadyGuessed guess)
      else
        let s1 = s\<lparr>guessedLetters := guessedLetters s @ [guess]\<rparr> in
        if guess \<notin> set (chosenWord s1)
        then (s1\<lparr>incorrectGuesses := wrap32 (incorrectGuesses s1 + 1)\<rparr>, False,
              LetterIncorrect guess)
        else (fst (checkWordGuessed s1), snd (checkWordGuessed s1), LetterCorrect guess))"

definition letterOptions :: string where
  "letterOptions = ''ABCDEFGHIJKLMNOPQRSTUVWXYZ''"

definition processPlayerGuess ::
  "GameState \<Rightarrow> string list \<Rightarrow> ((GameState \<times> bool \<times> Message) \<times> string list) option" where
  "processPlayerGuess s lines =
     (case getValidatedInput letterOptions lines of
        None \<Rightarrow> None
      | Some (guess, rest) \<Rightarrow>
          if guess = CHR ''1''
          then Some (wordGuess s (convertToUpper (fst (getline rest))), snd (getline rest))
          else Some (handleCharacterGuess s guess, rest))"

text \<open>A sequence of calls of \<^verbatim>\<open>handleCharacterGuess\<close>, each on the state the last one left.\<close>

fun guessLetters :: "GameState \<Rightarrow> string \<Rightarrow> GameState" where
  "guessLetters s [] = s"
| "guessLetters s (c # cs) = guessLetters (fst (handleCharacterGuess s c)) cs"

section \<open>Display and statistics\<close>

text \<open>
  \<^verbatim>\<open>drawGallows\<close> prints the picture \<^verbatim>\<open>stages[index]\<close>: the model returns the index
  as \<open>Stage\<close>. Where the source reports invalid parameters it prints no picture. The
  source caps the index from above only: when the product has wrapped around to a
  negative number the index is negative too, and the read of \<^verbatim>\<open>stages\<close> is out of
  bounds.
\<close>

datatype Gallows = Stage nat | InvalidParameters | OutOfBounds

definition drawGallows :: "int \<Rightarrow> int \<Rightarrow> Gallows" where
  "drawGallows incorrect mg =
     (if incorrect < 0 \<or> mg \<le> 0 then InvalidParameters
      else
        let index = min (cdiv (wrap32 (incorrect * (9 - 1))) mg) (9 - 1)
        in if index < 0 then OutOfBounds else Stage (nat index))"

text \<open>What \<^verbatim>\<open>displayGameState\<close> prints: the gallows and three lines.\<close>

record Display =
  gallows :: Gallows
  hintLine :: string
  guessedLine :: string
  wordLine :: string

definition displayGameState :: "GameState \<Rightarrow> Display" where
  "displayGameState s =
     \<lparr>gallows = drawGallows (incorrectGuesses s) (maxGuesses s),
      hintLine = ''Hint: '' @ (if incorrectGuesses s = 0 then [] else chosenHint s),
      guessedLine = ''Guessed Letters: '' @ guessedLetters s,
      wordLine = concat (map (\<lambda>letter.
          [if letter \<in> set (guessedLetters s) then letter else CHR ''_'', CHR '' ''])
        (chosenWord s))\<rparr>"

definition gameStats :: "GameState \<Rightarrow> GameState" where
  "gameStats s =
     (let s1 = (if wonRounds s > 0 \<or> lostRounds s > 0
                then s\<lparr>totalRounds := wrap32 (wonRounds s + lostRounds s)\<rparr> else s);
          s2 = s1\<lparr>winRate := (if totalRounds s1 = 0 then 0
                 else percentage (wonRounds s1) (totalRounds s1))\<rparr>
      in s2\<lparr>lossRate := (if totalRounds s2 = 0 then 0
                 else percentage (lostRounds s2) (totalRounds s2))\<rparr>)"

definition endGameDisplay :: "GameState \<Rightarrow> GameState" where
  "endGameDisplay s =
     (let s1 = (if wordGuessed s then s\<lparr>wonRounds := wrap32 (wonRounds s + 1)\<rparr>
                else if incorrectGuesses s \<ge> maxGuesses s
                then s\<lparr>lostRounds := wrap32 (lostRounds s + 1)\<rparr>
                else s);
          s2 = s1\<lparr>totalRounds := wrap32 (wonRounds s1 + lostRounds s1)\<rparr>;
          s3 = s2\<lparr>winRate := (if totalRounds s2 > 0
                 then percentage (wonRounds s2) (totalRounds s2) else 0)\<rparr>
      in s3\<lparr>lossRate := (if totalRounds s3 > 0
                 then percentage (lostRounds s3) (totalRounds s3) else 0)\<rparr>)"

section \<open>Single player and interactive rounds\<close>

text \<open>
  The round set-up at the head of the loop body of \<^verbatim>\<open>playSingleplayer\<close>. The argument
  \<open>r\<close> is the value of \<^verbatim>\<open>rand()\<close>. On an empty word list the source takes a
  remainder by zero, which has no defined result: \<open>None\<close>.
\<close>

definition singleplayerSetup :: "int \<Rightarrow> WordItem list \<Rightarrow> nat \<Rightarrow> GameState option" where
  "singleplayerSetup mg wordList r =
     (if wordList = [] then None
      else
        let wordIndex = r mod length wordList;
            s = (GameState_ctor mg)\<lparr>chosenWord := word (wordList ! wordIndex),
                                     chosenHint := hint (wordList ! wordIndex)\<rparr>
        in Some (s\<lparr>chosenWord := convertToUpper (chosenWord s),
                   chosenHint := convertToUpper (chosenHint s)\<rparr>))"

text \<open>The round set-up of \<^verbatim>\<open>playInteractiveMultiplayer\<close>, from the two lines player 1 types.\<close>

definition interactiveSetup :: "int \<Rightarrow> string \<Rightarrow> string \<Rightarrow> GameState" where
  "interactiveSetup mg w h =
     (let s = (GameState_ctor mg)\<lparr>chosenWord := w, chosenHint := h\<rparr>
      in s\<lparr>chosenWord := convertToUpper (chosenWord s),
           chosenHint := convertToUpper (chosenHint s)\<rparr>)"

text \<open>
  The game loop of \<^verbatim>\<open>playSingleplayer\<close> and of \<^verbatim>\<open>playInteractiveMultiplayer\<close>. It
  returns the final state and the lines not yet read; \<open>None\<close> when the input ends
  while a guess is awaited.
\<close>

partial_function (option) gameLoop :: "GameState \<Rightarrow> string list \<Rightarrow> (GameState \<times> string list) option"
where
  "gameLoop s lines =
     (if incorrectGuesses s < maxGuesses s \<and> \<not> wordGuessed s
      then (case processPlayerGuess s lines of
              None \<Rightarrow> None
            | Some (r, rest) \<Rightarrow> gameLoop (fst r) rest)
      else Some (s, lines))"

section \<open>Two players\<close>

definition multiplayerEndGameDisplay :: "PlayerState \<Rightarrow> PlayerState" where
  "multiplayerEndGameDisplay p =
     (if wordGuessed (state p) then p\<lparr>totalWins := wrap32 (totalWins p + 1)\<rparr>
      else if incorrectGuesses (state p) = maxGuesses (state p)
      then p\<lparr>totalLosses := wrap32 (totalLosses p + 1)\<rparr>
      else p)"

definition multiplayerSetup ::
  "GameState \<Rightarrow> GameState \<Rightarrow> WordItem list \<Rightarrow> nat \<Rightarrow> (GameState \<times> GameState) option" where
  "multiplayerSetup state1 state2 wordList r =
     (if wordList = [] then None
      else
        let wordIndex = r mod length wordList
        in Some (state1\<lparr>chosenWord := word (wordList ! wordIndex),
                        chosenHint := hint (wordList ! wordIndex)\<rparr>,
                 state2\<lparr>chosenWord := word (wordList ! wordIndex),
                        chosenHint := hint (wordList ! wordIndex)\<rparr>))"

text \<open>
  The start of \<^verbatim>\<open>playMultiplayer\<close>: two players on fresh states of the chosen
  difficulty, then \<^verbatim>\<open>multiplayerSetup\<close>.
\<close>

definition multiplayerStart ::
  "int \<Rightarrow> WordItem list \<Rightarrow> nat \<Rightarrow> (PlayerState \<times> PlayerState) option" where
  "multiplayerStart mg wordList r =
     (let player1 = PlayerState_ctor (GameState_ctor mg) ''Player 1'';
          player2 = PlayerState_ctor (GameState_ctor mg) ''Player 2''
      in case multiplayerSetup (state player1) (state player2) wordList r of
           None \<Rightarrow> None
         | Some (s1, s2) \<Rightarrow> Some (player1\<lparr>state := s1\<rparr>, player2\<lparr>state := s2\<rparr>))"

text \<open>
  The body of the \<^verbatim>\<open>for\<close> loop over the two players, for the player whose turn it
  is. The flag of the result tells whether the body left the loop by \<^verbatim>\<open>break\<close>.
\<close>

definition playerTurn ::
  "PlayerState \<Rightarrow> string list \<Rightarrow> (PlayerState \<times> bool \<times> string list) option" where
  "playerTurn p lines =
     (if \<not> wordGuessed (state p) \<and> incorrectGuesses (state p) < maxGuesses (state p)
      then (case processPlayerGuess (state p) lines of
              None \<Rightarrow> None
            | Some (r, rest) \<Rightarrow>
                let p1 = p\<lparr>state := fst r\<rparr> in
                if wordGuessed (state p1) then Some (multiplayerEndGameDisplay p1, True, rest)
                else if incorrectGuesses (state p1) \<ge> maxGuesses (state p1)
                then Some (multiplayerEndGameDisplay p1, False, rest)
                else Some (p1, False, rest))
      else Some (p, False, lines))"

text \<open>
  One pass of the \<^verbatim>\<open>for\<close> loop: player 1, then player 2 unless player 1 broke out.
  The third component is \<^verbatim>\<open>gameActive\<close> after the pass.
\<close>

definition turnCycle ::
  "PlayerState \<Rightarrow> PlayerState \<Rightarrow> string list
     \<Rightarrow> (PlayerState \<times> PlayerState \<times> bool \<times> string list) option" where
  "turnCycle player1 player2 lines =
     (case playerTurn player1 lines of
        None \<Rightarrow> None
      | Some (p1, brk1, rest1) \<Rightarrow>
          if brk1 then Some (p1, player2, False, rest1)
          else (case playerTurn player2 rest1 of
                  None \<Rightarrow> None
                | Some (p2, brk2, rest2) \<Rightarrow> Some (p1, p2, \<not> brk2, rest2)))"

text \<open>
  The \<^verbatim>\<open>while (gameActive)\<close> loop of \<^verbatim>\<open>playMultiplayer\<close>: the final player states
  and the lines not yet read.
\<close>

partial_function (option) multiplayerLoop ::
  "PlayerState \<Rightarrow> PlayerState \<Rightarrow> string list
     \<Rightarrow> (PlayerState \<times> PlayerState \<times> string list) option"
where
  "multiplayerLoop player1 player2 lines =
     (case turnCycle player1 player2 lines of
        None \<Rightarrow> None
      | Some (p1, p2, gameActive, rest) \<Rightarrow>
          if gameActive \<and>
             ((incorrectGuesses (state p1) < maxGuesses (state p1) \<and> \<not> wordGuessed (state p1)) \<or>
              (incorrectGuesses (state p2) < maxGuesses (state p2) \<and> \<not> wordGuessed (state p2)))
          then multiplayerLoop p1 p2 rest
          else Some (p1, p2, rest))"

text \<open>
  The first round of \<^verbatim>\<open>playMultiplayer\<close>: the start, then the turn loop.
\<close>

definition playMultiplayerRound ::
  "int \<Rightarrow> WordItem list \<Rightarrow> nat \<Rightarrow> string list
     \<Rightarrow> (PlayerState \<times> PlayerState \<times> string list) option" where
  "playMultiplayerRound mg wordList r lines =
     (case multiplayerStart mg wordList r of
        None \<Rightarrow> None
      | Some (player1, player2) \<Rightarrow> multiplayerLoop player1 player2 lines)"

declare gameLoop.simps [code]
declare multiplayerLoop.simps [code]

section \<open>Auxiliary facts\<close>

lemma wrap32_id: "- 2147483648 \<le> x \<Longrightarrow> x \<le> 2147483647 \<Longrightarrow> wrap32 x = x"
  by (simp add: wrap32_def)

text \<open>A string without repeated characters has at most 256 of them.\<close>

lemma distinct_string_length: "distinct (cs :: string) \<Longrightarrow> length cs \<le> 256"
proof -
  assume "distinct cs"
  then have "length cs = card (set cs)" by (simp add: distinct_card)
  also have "\<dots> \<le> card (UNIV :: char set)" by (rule card_mono) simp_all
  finally show ?thesis by (simp add: card_UNIV_char)
qed

lemma toupper_not_lower: "\<not> islower (toupper c)"
  unfolding toupper_def islower_def Let_def by (auto simp: of_char_of)

lemma convertToUpper_upperNormalized: "upperNormalized (convertToUpper str)"
  by (simp add: upperNormalized_def convertToUpper_def list_all_iff toupper_not_lower)

subsection \<open>Rounding to binary64\<close>










subsection \<open>Input, guesses and set-up\<close>

text \<open>The line \<^verbatim>\<open>1\<close> selects the full-word guess; a capital letter is taken as it is.\<close>

lemma getValidatedInput_one:
  "getValidatedInput letterOptions (''1'' # rest) = Some (CHR ''1'', rest)"
  by (simp add: letterOptions_def isdigit_def toupper_def firstChar_def)

lemma getValidatedInput_letter:
  assumes "c \<in> set letterOptions"
  shows "getValidatedInput letterOptions ([c] # rest) = Some (c, rest) \<and> c \<noteq> CHR ''1''"
proof -
  have "\<not> isdigit c \<and> toupper c = c \<and> c \<noteq> CHR ''1''"
    using assms unfolding letterOptions_def isdigit_def toupper_def Let_def by auto
  then show ?thesis using assms by (simp add: firstChar_def)
qed

text \<open>A letter guess never touches the target, the hint or the difficulty.\<close>

lemma handleCharacterGuess_fields [simp]:
  "chosenWord (fst (handleCharacterGuess s c)) = chosenWord s"
  "maxGuesses (fst (handleCharacterGuess s c)) = maxGuesses s"
  "chosenHint (fst (handleCharacterGuess s c)) = chosenHint s"
  by (simp_all add: handleCharacterGuess_def checkWordGuessed_def Let_def)

lemma guessLetters_fields [simp]:
  "chosenWord (guessLetters s cs) = chosenWord s"
  "maxGuesses (guessLetters s cs) = maxGuesses s"
  "chosenHint (guessLetters s cs) = chosenHint s"
  by (induction cs arbitrary: s) simp_all

lemma handleCharacterGuess_guessed:
  "guessedLetters (fst (handleCharacterGuess s c)) =
     (if c \<in> set (guessedLetters s) then guessedLetters s else guessedLetters s @ [c])"
  by (simp add: handleCharacterGuess_def checkWordGuessed_def Let_def)

lemma guessLetters_distinct:
  "distinct (guessedLetters s) \<Longrightarrow> distinct (guessedLetters (guessLetters s cs))"
  by (induction cs arbitrary: s) (simp_all add: handleCharacterGuess_guessed)

lemma guessLetters_prefix:
  "prefix (guessedLetters s) (guessedLetters (guessLetters s cs))"
proof (induction cs arbitrary: s)
  case Nil
  show ?case by simp
next
  case (Cons c cs)
  have "prefix (guessedLetters s) (guessedLetters (fst (handleCharacterGuess s c)))"
    by (simp add: handleCharacterGuess_guessed)
  then show ?case using Cons.IH prefix_order.trans by fastforce
qed

text \<open>
  New letters that are not in the target: each one is appended and counted, as long as
  the counter stays below \<open>INT_MAX\<close>.
\<close>

lemma guessLetters_wrong:
  assumes "distinct cs" and "set cs \<inter> set (chosenWord s) = {}"
    and "set cs \<inter> set (guessedLetters s) = {}"
    and "0 \<le> incorrectGuesses s" and "incorrectGuesses s + int (length cs) \<le> INT_MAX"
  shows "incorrectGuesses (guessLetters s cs) = incorrectGuesses s + int (length cs)
       \<and> wordGuessed (guessLetters s cs) = wordGuessed s
       \<and> guessedLetters (guessLetters s cs) = guessedLetters s @ cs"
  using assms
proof (induction cs arbitrary: s)
  case Nil
  show ?case by simp
next
  case (Cons c cs)
  let ?s1 = "fst (handleCharacterGuess s c)"
  have c: "c \<notin> set (guessedLetters s)" "c \<notin> set (chosenWord s)" using Cons.prems by auto
  have s1: "incorrectGuesses ?s1 = incorrectGuesses s + 1" "wordGuessed ?s1 = wordGuessed s"
    "guessedLetters ?s1 = guessedLetters s @ [c]"
    using c Cons.prems(4,5) by (simp_all add: handleCharacterGuess_def Let_def wrap32_id INT_MAX_def)
  have "incorrectGuesses (guessLetters ?s1 cs) = incorrectGuesses ?s1 + int (length cs)
       \<and> wordGuessed (guessLetters ?s1 cs) = wordGuessed ?s1
       \<and> guessedLetters (guessLetters ?s1 cs) = guessedLetters ?s1 @ cs"
    using Cons.prems s1 by (intro Cons.IH) auto
  then show ?case using s1 by simp
qed

text \<open>
  The same letters typed into the game loop of a single player, one per line: when
  they bring the counter exactly to \<^verbatim>\<open>maxGuesses\<close> the loop returns there, and leaves
  the rest of the input unread.
\<close>

lemma gameLoop_wrong_letters:
  assumes "distinct cs" and "set cs \<subseteq> set letterOptions"
    and "set cs \<inter> set (chosenWord s) = {}" and "set cs \<inter> set (guessedLetters s) = {}"
    and "\<not> wordGuessed s" and "0 \<le> incorrectGuesses s"
    and "incorrectGuesses s + int (length cs) = maxGuesses s" and "maxGuesses s \<le> INT_MAX"
  shows "gameLoop s (map (\<lambda>c. [c]) cs @ rest) = Some (guessLetters s cs, rest)"
  using assms
proof (induction cs arbitrary: s)
  case Nil
  then show ?case by (subst gameLoop.simps) simp
next
  case (Cons c cs)
  let ?s1 = "fst (handleCharacterGuess s c)"
  have c: "c \<notin> set (guessedLetters s)" "c \<notin> set (chosenWord s)" "c \<in> set letterOptions"
    using Cons.prems by auto
  have s1: "incorrectGuesses ?s1 = incorrectGuesses s + 1" "wordGuessed ?s1 = wordGuessed s"
    "guessedLetters ?s1 = guessedLetters s @ [c]"
    using c Cons.prems(6,7,8) by (simp_all add: handleCharacterGuess_def Let_def wrap32_id INT_MAX_def)
  have ih: "gameLoop ?s1 (map (\<lambda>c. [c]) cs @ rest) = Some (guessLetters ?s1 cs, rest)"
    using Cons.prems s1 by (intro Cons.IH) auto
  have pg: "processPlayerGuess s (map (\<lambda>c. [c]) (c # cs) @ rest) =
      Some (handleCharacterGuess s c, map (\<lambda>c. [c]) cs @ rest)"
    using getValidatedInput_letter [OF c(3)]
    by (simp add: processPlayerGuess_def del: getValidatedInput.simps)
  have "incorrectGuesses s < maxGuesses s" using Cons.prems(7) by simp
  then show ?case using Cons.prems(5) pg ih
    by (subst gameLoop.simps) simp
qed

text \<open>
  One letter guess keeps the link between the flag \<^verbatim>\<open>wordGuessed\<close> and the guessed
  letters: the flag is set exactly when the letters cover the target.
\<close>

lemma handleCharacterGuess_won_iff:
  assumes "wordGuessed s \<longleftrightarrow> set (chosenWord s) \<subseteq> set (guessedLetters s)"
  shows "wordGuessed (fst (handleCharacterGuess s c)) \<longleftrightarrow>
         set (chosenWord s) \<subseteq> set (guessedLetters (fst (handleCharacterGuess s c)))"
  using assms
  by (auto simp: handleCharacterGuess_def checkWordGuessed_def Let_def list_all_iff)

lemma guessLetters_won_iff:
  assumes "wordGuessed s \<longleftrightarrow> set (chosenWord s) \<subseteq> set (guessedLetters s)"
  shows "(wordGuessed (guessLetters s cs) \<longleftrightarrow>
            set (chosenWord s) \<subseteq> set (guessedLetters (guessLetters s cs)))
       \<and> set (guessedLetters (guessLetters s cs)) = set (guessedLetters s) \<union> set cs"
  using assms
proof (induction cs arbitrary: s)
  case Nil
  then show ?case by simp
next
  case (Cons c cs)
  let ?s1 = "fst (handleCharacterGuess s c)"
  have "wordGuessed ?s1 \<longleftrightarrow> set (chosenWord ?s1) \<subseteq> set (guessedLetters ?s1)"
    using handleCharacterGuess_won_iff [OF Cons.prems] by simp
  from Cons.IH [OF this] show ?case
    by (auto simp: handleCharacterGuess_guessed)
qed

text \<open>The round set-ups of the single player and of the interactive mode normalise.\<close>

lemma singleplayerSetup_upperNormalized:
  "singleplayerSetup mg wordList r = Some s \<Longrightarrow>
     upperNormalized (chosenWord s) \<and> upperNormalized (chosenHint s)"
  by (auto simp: singleplayerSetup_def Let_def convertToUpper_upperNormalized split: if_splits)

lemma interactiveSetup_upperNormalized:
  "upperNormalized (chosenWord (interactiveSetup mg w h)) \<and>
   upperNormalized (chosenHint (interactiveSetup mg w h))"
  by (simp add: interactiveSetup_def Let_def convertToUpper_upperNormalized)

text \<open>A winning guess makes the body of the turn loop report the win and break.\<close>

lemma playerTurn_win:
  assumes "processPlayerGuess (state p) lines = Some ((s', b, m), rest)"
    and "outcome (state p) = Unresolved" and "wordGuessed s'"
  shows "playerTurn p lines = Some (multiplayerEndGameDisplay (p\<lparr>state := s'\<rparr>), True, rest)"
  using assms by (simp add: playerTurn_def outcome_def split: if_splits)

lemma wordLine_nth:
  "i < length w \<Longrightarrow>
   concat (map (\<lambda>letter. [f letter, CHR '' '']) w) ! (2 * i) = f (w ! i)
   \<and> concat (map (\<lambda>letter. [f letter, CHR '' '']) w) ! Suc (2 * i) = CHR '' ''"
proof (induction w arbitrary: i)
  case Nil
  then show ?case by simp
next
  case (Cons a w)
  then show ?case by (cases i) simp_all
qed

lemma wordLine_length: "length (concat (map (\<lambda>letter. [f letter, CHR '' '']) w)) = 2 * length w"
  by (induction w) simp_all

section \<open>The claims\<close>

subsection \<open>C1: a wrong full-word guess loses the round\<close>

text \<open>
  Claim C1. In an unresolved round, a full-word guess (the line \<^verbatim>\<open>1\<close>, then the
  candidate) whose upper-cased candidate differs from the target returns \<open>False\<close>, sets
  \<^verbatim>\<open>incorrectGuesses\<close> to \<^verbatim>\<open>maxGuesses\<close> whatever it was before, and leaves the round
  lost.
\<close>

theorem wordGuess_wrong_forces_loss:
  assumes "outcome s = Unresolved" and "convertToUpper candidate \<noteq> chosenWord s"
  shows "processPlayerGuess s (''1'' # candidate # rest) =
           Some ((s\<lparr>incorrectGuesses := maxGuesses s\<rparr>, False, WordIncorrect (chosenWord s)), rest)
       \<and> incorrectGuesses (s\<lparr>incorrectGuesses := maxGuesses s\<rparr>) = maxGuesses s
       \<and> outcome (s\<lparr>incorrectGuesses := maxGuesses s\<rparr>) = Lost"
  using assms
  by (simp add: processPlayerGuess_def getValidatedInput_one getline_def wordGuess_def outcome_def
      del: getValidatedInput.simps split: if_splits)

text \<open>
  The fresh round of the spec: target \<^verbatim>\<open>CAT\<close>, eight guesses allowed, none used; the
  wrong word \<^verbatim>\<open>dog\<close> leaves the counter at 8, not at 1.
\<close>

theorem wordGuess_wrong_forces_loss_witness:
  "outcome ((GameState_ctor 8)\<lparr>chosenWord := ''CAT''\<rparr>) = Unresolved
   \<and> convertToUpper ''dog'' \<noteq> chosenWord ((GameState_ctor 8)\<lparr>chosenWord := ''CAT''\<rparr>)
   \<and> processPlayerGuess ((GameState_ctor 8)\<lparr>chosenWord := ''CAT''\<rparr>) [''1'', ''dog''] =
       Some (((GameState_ctor 8)\<lparr>chosenWord := ''CAT'', incorrectGuesses := 8\<rparr>, False,
              WordIncorrect ''CAT''), [])
   \<and> outcome ((GameState_ctor 8)\<lparr>chosenWord := ''CAT'', incorrectGuesses := 8\<rparr>) = Lost"
proof -
  have u: "outcome ((GameState_ctor 8)\<lparr>chosenWord := ''CAT''\<rparr>) = Unresolved"
    by (simp add: outcome_def GameState_ctor_def)
  have d: "convertToUpper ''dog'' \<noteq> chosenWord ((GameState_ctor 8)\<lparr>chosenWord := ''CAT''\<rparr>)"
    by code_simp
  show ?thesis
    using u d wordGuess_wrong_forces_loss [OF u d, of "[]"] by (simp add: GameState_ctor_def)
qed

subsection \<open>C2: a win ends the round of two players\<close>

text \<open>
  Claim C2, as it is stated, says that whenever one player wins, the other player's
  round is unresolved and no loss is recorded for the other player. That fails when the
  other player has lost before: with two guesses allowed and the target \<^verbatim>\<open>DOG\<close>,
  player 2 guesses \<^verbatim>\<open>X\<close> and \<^verbatim>\<open>Y\<close> and is hanged, play goes on for player 1 alone,
  and player 1 wins with \<^verbatim>\<open>G\<close>. Before that last line the loop is still waiting for
  player 1.
\<close>

theorem win_after_opponent_lost_counterexample:
  "playMultiplayerRound 2 [\<lparr>word = ''DOG'', hint = ''PET''\<rparr>] 0 [''D'', ''X'', ''O'', ''Y''] = None
   \<and> playMultiplayerRound 2 [\<lparr>word = ''DOG'', hint = ''PET''\<rparr>] 0 [''D'', ''X'', ''O'', ''Y'', ''G''] =
       Some ((PlayerState_ctor ((GameState_ctor 2)\<lparr>chosenWord := ''DOG'', chosenHint := ''PET'',
                 guessedLetters := ''DOG'', wordGuessed := True\<rparr>) ''Player 1'')\<lparr>totalWins := 1\<rparr>,
             (PlayerState_ctor ((GameState_ctor 2)\<lparr>chosenWord := ''DOG'', chosenHint := ''PET'',
                 guessedLetters := ''XY'', incorrectGuesses := 2\<rparr>) ''Player 2'')\<lparr>totalLosses := 1\<rparr>,
             [])
   \<and> outcome ((GameState_ctor 2)\<lparr>chosenWord := ''DOG'', chosenHint := ''PET'',
                 guessedLetters := ''DOG'', wordGuessed := True\<rparr>) = Won
   \<and> outcome ((GameState_ctor 2)\<lparr>chosenWord := ''DOG'', chosenHint := ''PET'',
                 guessedLetters := ''XY'', incorrectGuesses := 2\<rparr>) \<noteq> Unresolved"
  by code_simp

text \<open>
  Claim C2, amended. When the guess of the player \<open>p\<close>, whose round is unresolved,
  sets \<^verbatim>\<open>wordGuessed\<close>, the turn loop returns at once: the win is reported and counted
  for \<open>p\<close>, the lines after the winning guess are left unread, and the other player is
  returned exactly as it was before that guess, so its round is still unresolved and
  has no loss recorded if that was so before. This holds when \<open>p\<close> plays first in the
  cycle, and when \<open>p\<close> plays second, after the turn of the other player in the same cycle
  has turned \<open>other\<close> into \<open>other'\<close> without a win.
\<close>

theorem win_ends_round:
  assumes "processPlayerGuess (state p) lines = Some ((s', b, m), rest)"
    and "outcome (state p) = Unresolved" and "wordGuessed s'"
  shows "multiplayerLoop p other lines =
           Some (multiplayerEndGameDisplay (p\<lparr>state := s'\<rparr>), other, rest)
       \<and> (playerTurn other lines0 = Some (other', False, lines) \<longrightarrow>
            multiplayerLoop other p lines0 =
              Some (other', multiplayerEndGameDisplay (p\<lparr>state := s'\<rparr>), rest))
       \<and> totalWins (multiplayerEndGameDisplay (p\<lparr>state := s'\<rparr>)) = wrap32 (totalWins p + 1)
       \<and> totalLosses (multiplayerEndGameDisplay (p\<lparr>state := s'\<rparr>)) = totalLosses p
       \<and> outcome (state (multiplayerEndGameDisplay (p\<lparr>state := s'\<rparr>))) = Won"
proof -
  note turn = playerTurn_win [OF assms]
  have first: "multiplayerLoop p other lines =
      Some (multiplayerEndGameDisplay (p\<lparr>state := s'\<rparr>), other, rest)"
    by (subst multiplayerLoop.simps) (simp add: turnCycle_def turn)
  have second: "multiplayerLoop other p lines0 =
      Some (other', multiplayerEndGameDisplay (p\<lparr>state := s'\<rparr>), rest)"
    if "playerTurn other lines0 = Some (other', False, lines)"
    by (subst multiplayerLoop.simps) (simp add: turnCycle_def turn that)
  have tally: "totalWins (multiplayerEndGameDisplay (p\<lparr>state := s'\<rparr>)) = wrap32 (totalWins p + 1)"
    "totalLosses (multiplayerEndGameDisplay (p\<lparr>state := s'\<rparr>)) = totalLosses p"
    "outcome (state (multiplayerEndGameDisplay (p\<lparr>state := s'\<rparr>))) = Won"
    using assms(3) by (simp_all add: multiplayerEndGameDisplay_def outcome_def)
  show ?thesis using first second tally by blast
qed

text \<open>
  The scenario of the spec, target \<^verbatim>\<open>DOG\<close> with four guesses allowed. The winner has
  guessed \<^verbatim>\<open>D\<close> and \<^verbatim>\<open>O\<close> and types \<^verbatim>\<open>G\<close>; the other player has one wrong letter.
  Played first or second, the winner ends the round, the line \<^verbatim>\<open>Z\<close> is never read, and
  the other player stays unresolved with no loss.
\<close>

theorem win_ends_round_witness:
  "processPlayerGuess
     (state (PlayerState_ctor ((GameState_ctor 4)\<lparr>chosenWord := ''DOG'', guessedLetters := ''DO''\<rparr>) ''A''))
     [''G'', ''Z''] =
     Some (((GameState_ctor 4)\<lparr>chosenWord := ''DOG'', guessedLetters := ''DOG'', wordGuessed := True\<rparr>,
            True, LetterCorrect (CHR ''G'')), [''Z''])
   \<and> outcome (state (PlayerState_ctor
         ((GameState_ctor 4)\<lparr>chosenWord := ''DOG'', guessedLetters := ''DO''\<rparr>) ''A'')) = Unresolved
   \<and> playerTurn (PlayerState_ctor ((GameState_ctor 4)\<lparr>chosenWord := ''DOG''\<rparr>) ''B'')
        [''X'', ''G'', ''Z''] =
       Some (PlayerState_ctor ((GameState_ctor 4)\<lparr>chosenWord := ''DOG'', guessedLetters := ''X'',
               incorrectGuesses := 1\<rparr>) ''B'', False, [''G'', ''Z''])
   \<and> multiplayerLoop
        (PlayerState_ctor ((GameState_ctor 4)\<lparr>chosenWord := ''DOG'', guessedLetters := ''DO''\<rparr>) ''A'')
        (PlayerState_ctor ((GameState_ctor 4)\<lparr>chosenWord := ''DOG''\<rparr>) ''B'')
        [''G'', ''Z''] =
       Some ((PlayerState_ctor ((GameState_ctor 4)\<lparr>chosenWord := ''DOG'', guessedLetters := ''DOG'',
                wordGuessed := True\<rparr>) ''A'')\<lparr>totalWins := 1\<rparr>,
             PlayerState_ctor ((GameState_ctor 4)\<lparr>chosenWord := ''DOG''\<rparr>) ''B'',
             [''Z''])
   \<and> multiplayerLoop
        (PlayerState_ctor ((GameState_ctor 4)\<lparr>chosenWord := ''DOG''\<rparr>) ''B'')
        (PlayerState_ctor ((GameState_ctor 4)\<lparr>chosenWord := ''DOG'', guessedLetters := ''DO''\<rparr>) ''A'')
        [''X'', ''G'', ''Z''] =
       Some (PlayerState_ctor ((GameState_ctor 4)\<lparr>chosenWord := ''DOG'', guessedLetters := ''X'',
               incorrectGuesses := 1\<rparr>) ''B'',
             (PlayerState_ctor ((GameState_ctor 4)\<lparr>chosenWord := ''DOG'', guessedLetters := ''DOG'',
                wordGuessed := True\<rparr>) ''A'')\<lparr>totalWins := 1\<rparr>,
             [''Z''])
   \<and> outcome ((GameState_ctor 4)\<lparr>chosenWord := ''DOG'', guessedLetters := ''X'',
               incorrectGuesses := 1\<rparr>) = Unresolved"
proof -
  let ?p = "PlayerState_ctor ((GameState_ctor 4)\<lparr>chosenWord := ''DOG'', guessedLetters := ''DO''\<rparr>) ''A''"
  let ?s' = "(GameState_ctor 4)\<lparr>chosenWord := ''DOG'', guessedLetters := ''DOG'', wordGuessed := True\<rparr>"
  let ?other = "PlayerState_ctor ((GameState_ctor 4)\<lparr>chosenWord := ''DOG''\<rparr>) ''B''"
  let ?other' = "PlayerState_ctor ((GameState_ctor 4)\<lparr>chosenWord := ''DOG'', guessedLetters := ''X'',
               incorrectGuesses := 1\<rparr>) ''B''"
  have g: "processPlayerGuess (state ?p) [''G'', ''Z''] =
      Some ((?s', True, LetterCorrect (CHR ''G'')), [''Z''])"
    by code_simp
  have u: "outcome (state ?p) = Unresolved" by code_simp
  have w: "wordGuessed ?s'" by code_simp
  have t: "playerTurn ?other [''X'', ''G'', ''Z''] = Some (?other', False, [''G'', ''Z''])"
    by code_simp
  have e: "multiplayerEndGameDisplay (?p\<lparr>state := ?s'\<rparr>) =
      (PlayerState_ctor ?s' ''A'')\<lparr>totalWins := 1\<rparr>"
    by code_simp
  have o: "outcome (state ?other') = Unresolved" by code_simp
  from win_ends_round [OF g u w, of ?other "[''X'', ''G'', ''Z'']" ?other'] t e
  have "multiplayerLoop ?p ?other [''G'', ''Z''] =
          Some ((PlayerState_ctor ?s' ''A'')\<lparr>totalWins := 1\<rparr>, ?other, [''Z''])"
    and "multiplayerLoop ?other ?p [''X'', ''G'', ''Z''] =
          Some (?other', (PlayerState_ctor ?s' ''A'')\<lparr>totalWins := 1\<rparr>, [''Z''])"
    by simp_all
  then show ?thesis using g u t o by (simp add: PlayerState_ctor_def)
qed

subsection \<open>C3: the loss threshold\<close>

text \<open>
  Claim C3. From the start of a round, after any sequence \<open>cs\<close> of distinct letters
  that are not in the target, \<^verbatim>\<open>incorrectGuesses\<close> is the number of those letters: the
  round is unresolved while that number is below \<^verbatim>\<open>maxGuesses\<close> and lost once it has
  reached it, and one more new wrong letter adds exactly 1.
\<close>

theorem loss_threshold:
  assumes "guessedLetters s = []" and "incorrectGuesses s = 0" and "\<not> wordGuessed s"
    and "distinct cs" and "set cs \<inter> set (chosenWord s) = {}"
  shows "incorrectGuesses (guessLetters s cs) = int (length cs)
       \<and> outcome (guessLetters s cs) =
           (if int (length cs) < maxGuesses s then Unresolved else Lost)
       \<and> (\<forall>c. c \<notin> set cs \<and> c \<notin> set (chosenWord s) \<longrightarrow>
            incorrectGuesses (fst (handleCharacterGuess (guessLetters s cs) c)) =
              incorrectGuesses (guessLetters s cs) + 1)"
proof -
  have len: "int (length cs) \<le> 256" using distinct_string_length [OF assms(4)] by simp
  have run: "incorrectGuesses (guessLetters s cs) = incorrectGuesses s + int (length cs)
       \<and> wordGuessed (guessLetters s cs) = wordGuessed s
       \<and> guessedLetters (guessLetters s cs) = guessedLetters s @ cs"
    using assms len by (intro guessLetters_wrong) (simp_all add: INT_MAX_def)
  have step: "incorrectGuesses (fst (handleCharacterGuess (guessLetters s cs) c)) =
      incorrectGuesses (guessLetters s cs) + 1"
    if "c \<notin> set cs" "c \<notin> set (chosenWord s)" for c
    using that run assms(1,2) len
    by (simp add: handleCharacterGuess_def Let_def wrap32_id)
  show ?thesis using run assms(2,3) step by (simp add: outcome_def)
qed

text \<open>
  Target \<^verbatim>\<open>CAT\<close> with two guesses allowed: unresolved after \<^verbatim>\<open>X\<close>, lost after
  \<^verbatim>\<open>X\<close> and \<^verbatim>\<open>Y\<close>.
\<close>

theorem loss_threshold_witness:
  "guessedLetters ((GameState_ctor 2)\<lparr>chosenWord := ''CAT''\<rparr>) = []
   \<and> incorrectGuesses ((GameState_ctor 2)\<lparr>chosenWord := ''CAT''\<rparr>) = 0
   \<and> \<not> wordGuessed ((GameState_ctor 2)\<lparr>chosenWord := ''CAT''\<rparr>)
   \<and> distinct ''XY''
   \<and> set ''XY'' \<inter> set (chosenWord ((GameState_ctor 2)\<lparr>chosenWord := ''CAT''\<rparr>)) = {}
   \<and> incorrectGuesses (guessLetters ((GameState_ctor 2)\<lparr>chosenWord := ''CAT''\<rparr>) ''XY'') = 2
   \<and> outcome (guessLetters ((GameState_ctor 2)\<lparr>chosenWord := ''CAT''\<rparr>) ''XY'') = Lost
   \<and> outcome (guessLetters ((GameState_ctor 2)\<lparr>chosenWord := ''CAT''\<rparr>) ''X'') = Unresolved"
  using loss_threshold [of "(GameState_ctor 2)\<lparr>chosenWord := ''CAT''\<rparr>" "''XY''"]
        loss_threshold [of "(GameState_ctor 2)\<lparr>chosenWord := ''CAT''\<rparr>" "''X''"]
  by (simp add: GameState_ctor_def)

subsection \<open>C4: the round is won exactly when the target is covered\<close>

text \<open>
  Claim C4. A correct letter guess, that is a new letter that occurs in the target,
  made in a round that is not won yet, wins the round exactly when every character of
  the target is among the guessed letters after it. For a sequence of letter guesses:
  in a round in which the flag \<^verbatim>\<open>wordGuessed\<close> agrees with the guessed letters, as at
  the start of every round with a non-empty target (no letter guessed, flag not set),
  the round is won after the sequence exactly when every character of the target is
  among the guessed letters, which are the letters guessed before and the letters of the
  sequence; so the order of the letters does not matter.
\<close>

theorem win_completeness:
  "(\<not> wordGuessed s \<and> c \<in> set (chosenWord s) \<and> c \<notin> set (guessedLetters s) \<longrightarrow>
      guessedLetters (fst (handleCharacterGuess s c)) = guessedLetters s @ [c]
      \<and> (outcome (fst (handleCharacterGuess s c)) = Won \<longleftrightarrow>
           set (chosenWord s) \<subseteq> set (guessedLetters (fst (handleCharacterGuess s c)))))
   \<and> ((wordGuessed s \<longleftrightarrow> set (chosenWord s) \<subseteq> set (guessedLetters s)) \<longrightarrow>
      (outcome (guessLetters s cs) = Won \<longleftrightarrow>
         set (chosenWord s) \<subseteq> set (guessedLetters (guessLetters s cs)))
      \<and> set (guessedLetters (guessLetters s cs)) = set (guessedLetters s) \<union> set cs)"
proof -
  have one: "guessedLetters (fst (handleCharacterGuess s c)) = guessedLetters s @ [c]
      \<and> (outcome (fst (handleCharacterGuess s c)) = Won \<longleftrightarrow>
           set (chosenWord s) \<subseteq> set (guessedLetters (fst (handleCharacterGuess s c))))"
    if "\<not> wordGuessed s" "c \<in> set (chosenWord s)" "c \<notin> set (guessedLetters s)"
    using that
    by (auto simp: handleCharacterGuess_def checkWordGuessed_def Let_def list_all_iff outcome_def)
  have many: "(outcome (guessLetters s cs) = Won \<longleftrightarrow>
         set (chosenWord s) \<subseteq> set (guessedLetters (guessLetters s cs)))
      \<and> set (guessedLetters (guessLetters s cs)) = set (guessedLetters s) \<union> set cs"
    if "wordGuessed s \<longleftrightarrow> set (chosenWord s) \<subseteq> set (guessedLetters s)"
    using guessLetters_won_iff [OF that] by (simp add: outcome_def)
  show ?thesis using one many by blast
qed

text \<open>
  Target \<^verbatim>\<open>CAT\<close>: after \<^verbatim>\<open>C\<close> and \<^verbatim>\<open>A\<close> the letter \<^verbatim>\<open>T\<close> wins; the sequence
  \<^verbatim>\<open>T\<close>, \<^verbatim>\<open>C\<close>, \<^verbatim>\<open>A\<close> wins, and \<^verbatim>\<open>T\<close>, \<^verbatim>\<open>C\<close> does not yet.
\<close>

theorem win_completeness_witness:
  "\<not> wordGuessed ((GameState_ctor 8)\<lparr>chosenWord := ''CAT'', guessedLetters := ''CA''\<rparr>)
   \<and> CHR ''T'' \<in> set (chosenWord ((GameState_ctor 8)\<lparr>chosenWord := ''CAT'', guessedLetters := ''CA''\<rparr>))
   \<and> CHR ''T'' \<notin> set (guessedLetters ((GameState_ctor 8)\<lparr>chosenWord := ''CAT'', guessedLetters := ''CA''\<rparr>))
   \<and> outcome (fst (handleCharacterGuess
         ((GameState_ctor 8)\<lparr>chosenWord := ''CAT'', guessedLetters := ''CA''\<rparr>) (CHR ''T''))) = Won
   \<and> (wordGuessed ((GameState_ctor 8)\<lparr>chosenWord := ''CAT''\<rparr>) \<longleftrightarrow>
        set (chosenWord ((GameState_ctor 8)\<lparr>chosenWord := ''CAT''\<rparr>))
          \<subseteq> set (guessedLetters ((GameState_ctor 8)\<lparr>chosenWord := ''CAT''\<rparr>)))
   \<and> outcome (guessLetters ((GameState_ctor 8)\<lparr>chosenWord := ''CAT''\<rparr>) ''TCA'') = Won
   \<and> outcome (guessLetters ((GameState_ctor 8)\<lparr>chosenWord := ''CAT''\<rparr>) ''TC'') \<noteq> Won"
  using win_completeness [of "(GameState_ctor 8)\<lparr>chosenWord := ''CAT'', guessedLetters := ''CA''\<rparr>"
            "CHR ''T''" "[]"]
        win_completeness [of "(GameState_ctor 8)\<lparr>chosenWord := ''CAT''\<rparr>" "CHR ''C''" "''TCA''"]
        win_completeness [of "(GameState_ctor 8)\<lparr>chosenWord := ''CAT''\<rparr>" "CHR ''C''" "''TC''"]
  by (simp add: GameState_ctor_def)

text \<open>All six orders of \<^verbatim>\<open>C\<close>, \<^verbatim>\<open>A\<close>, \<^verbatim>\<open>T\<close>: won at the third letter, not at the second.\<close>

lemma cat_all_orders:
  "list_all (\<lambda>cs.
       wordGuessed (guessLetters ((GameState_ctor 8)\<lparr>chosenWord := ''CAT''\<rparr>) cs)
     \<and> \<not> wordGuessed (guessLetters ((GameState_ctor 8)\<lparr>chosenWord := ''CAT''\<rparr>) (butlast cs)))
     [''CAT'', ''CTA'', ''ACT'', ''ATC'', ''TCA'', ''TAC'']"
  by code_simp

subsection \<open>C5: a repeated letter changes nothing\<close>

text \<open>
  Claim C5. A letter that is already among the guessed letters is answered with the
  message for an already guessed letter and the result \<open>False\<close>, and the state that
  comes back is the state that went in: counter, guessed letters and outcome included.
\<close>

theorem repeated_guess_no_change:
  "guess \<in> set (guessedLetters s) \<Longrightarrow>
     handleCharacterGuess s guess = (s, False, AlreadyGuessed guess)"
  by (simp add: handleCharacterGuess_def)

text \<open>
  Target \<^verbatim>\<open>CAT\<close> after the wrong letter \<^verbatim>\<open>X\<close> and the right letter \<^verbatim>\<open>A\<close>: both
  are repeated without effect.
\<close>

theorem repeated_guess_no_change_witness:
  "CHR ''A'' \<in> set (guessedLetters ((GameState_ctor 8)\<lparr>chosenWord := ''CAT'',
       guessedLetters := ''XA'', incorrectGuesses := 1\<rparr>))
   \<and> CHR ''X'' \<in> set (guessedLetters ((GameState_ctor 8)\<lparr>chosenWord := ''CAT'',
       guessedLetters := ''XA'', incorrectGuesses := 1\<rparr>))
   \<and> handleCharacterGuess ((GameState_ctor 8)\<lparr>chosenWord := ''CAT'',
       guessedLetters := ''XA'', incorrectGuesses := 1\<rparr>) (CHR ''A'')
     = ((GameState_ctor 8)\<lparr>chosenWord := ''CAT'', guessedLetters := ''XA'', incorrectGuesses := 1\<rparr>,
        False, AlreadyGuessed (CHR ''A''))
   \<and> handleCharacterGuess ((GameState_ctor 8)\<lparr>chosenWord := ''CAT'',
       guessedLetters := ''XA'', incorrectGuesses := 1\<rparr>) (CHR ''X'')
     = ((GameState_ctor 8)\<lparr>chosenWord := ''CAT'', guessedLetters := ''XA'', incorrectGuesses := 1\<rparr>,
        False, AlreadyGuessed (CHR ''X''))"
  using repeated_guess_no_change [of "CHR ''A''" "(GameState_ctor 8)\<lparr>chosenWord := ''CAT'',
            guessedLetters := ''XA'', incorrectGuesses := 1\<rparr>"]
        repeated_guess_no_change [of "CHR ''X''" "(GameState_ctor 8)\<lparr>chosenWord := ''CAT'',
            guessedLetters := ''XA'', incorrectGuesses := 1\<rparr>"]
  by simp

subsection \<open>C6: upper case at the start of a round\<close>

text \<open>
  Claim C6 says that the target and the hint are in upper case at the start of every
  round in every mode. The single player and the interactive set-up convert both
  (\<open>singleplayerSetup_upperNormalized\<close>, \<open>interactiveSetup_upperNormalized\<close>);
  \<^verbatim>\<open>multiplayerSetup\<close> copies the catalogue entry as it is, and
  \<^verbatim>\<open>readIntoWordItem\<close> stores the lines of the file unchanged. With the catalogue line
  \<^verbatim>\<open>cat,a pet\<close> both players of the two-player mode start on the target \<^verbatim>\<open>cat\<close>,
  where the single player gets \<^verbatim>\<open>CAT\<close>. On that target the letter \<^verbatim>\<open>c\<close>, read as
  \<^verbatim>\<open>C\<close>, counts as a wrong guess and the full word \<^verbatim>\<open>cat\<close>, upper-cased before the
  comparison, loses the round.
\<close>

theorem multiplayerSetup_not_normalized:
  "multiplayerStart 8 [\<lparr>word = ''cat'', hint = ''a pet''\<rparr>] 0 =
     Some (PlayerState_ctor ((GameState_ctor 8)\<lparr>chosenWord := ''cat'', chosenHint := ''a pet''\<rparr>)
             ''Player 1'',
           PlayerState_ctor ((GameState_ctor 8)\<lparr>chosenWord := ''cat'', chosenHint := ''a pet''\<rparr>)
             ''Player 2'')
   \<and> \<not> upperNormalized ''cat'' \<and> \<not> upperNormalized ''a pet''
   \<and> singleplayerSetup 8 [\<lparr>word = ''cat'', hint = ''a pet''\<rparr>] 0 =
       Some ((GameState_ctor 8)\<lparr>chosenWord := ''CAT'', chosenHint := ''A PET''\<rparr>)
   \<and> processPlayerGuess ((GameState_ctor 8)\<lparr>chosenWord := ''cat'', chosenHint := ''a pet''\<rparr>) [''c''] =
       Some (((GameState_ctor 8)\<lparr>chosenWord := ''cat'', chosenHint := ''a pet'',
                guessedLetters := ''C'', incorrectGuesses := 1\<rparr>, False, LetterIncorrect (CHR ''C'')), [])
   \<and> processPlayerGuess ((GameState_ctor 8)\<lparr>chosenWord := ''cat'', chosenHint := ''a pet''\<rparr>)
         [''1'', ''cat''] =
       Some (((GameState_ctor 8)\<lparr>chosenWord := ''cat'', chosenHint := ''a pet'',
                incorrectGuesses := 8\<rparr>, False, WordIncorrect ''cat''), [])"
  by code_simp

subsection \<open>C7: both players get the same word\<close>

text \<open>
  Claim C7. On a non-empty catalogue, for every value \<open>r\<close> of \<^verbatim>\<open>rand()\<close>,
  \<^verbatim>\<open>multiplayerSetup\<close> returns two states with the same target and the same hint, those
  of one entry of the catalogue.
\<close>

theorem multiplayerSetup_same_word:
  assumes "wordList \<noteq> []"
  shows "\<exists>s1 s2. multiplayerSetup state1 state2 wordList r = Some (s1, s2)
           \<and> chosenWord s1 = chosenWord s2 \<and> chosenHint s1 = chosenHint s2
           \<and> (\<exists>item \<in> set wordList. chosenWord s1 = word item \<and> chosenHint s1 = hint item)"
proof -
  have "r mod length wordList < length wordList" using assms by simp
  then have "wordList ! (r mod length wordList) \<in> set wordList" by (rule nth_mem)
  then show ?thesis using assms by (auto simp: multiplayerSetup_def Let_def)
qed

theorem multiplayerSetup_same_word_witness:
  "[\<lparr>word = ''DOG'', hint = ''PET''\<rparr>, \<lparr>word = ''ZEBRA'', hint = ''AFRICAN ANIMAL''\<rparr>] \<noteq> []
   \<and> (\<exists>s1 s2. multiplayerSetup (GameState_ctor 4) (GameState_ctor 4)
          [\<lparr>word = ''DOG'', hint = ''PET''\<rparr>, \<lparr>word = ''ZEBRA'', hint = ''AFRICAN ANIMAL''\<rparr>] 7
            = Some (s1, s2)
        \<and> chosenWord s1 = chosenWord s2 \<and> chosenHint s1 = chosenHint s2)"
  using multiplayerSetup_same_word
          [of "[\<lparr>word = ''DOG'', hint = ''PET''\<rparr>, \<lparr>word = ''ZEBRA'', hint = ''AFRICAN ANIMAL''\<rparr>]"
              "GameState_ctor 4" "GameState_ctor 4" 7]
  by auto

text \<open>The draw 7 on that catalogue of two picks the second entry for both players.\<close>

lemma multiplayerSetup_zebra:
  "multiplayerSetup (GameState_ctor 4) (GameState_ctor 4)
     [\<lparr>word = ''DOG'', hint = ''PET''\<rparr>, \<lparr>word = ''ZEBRA'', hint = ''AFRICAN ANIMAL''\<rparr>] 7 =
   Some ((GameState_ctor 4)\<lparr>chosenWord := ''ZEBRA'', chosenHint := ''AFRICAN ANIMAL''\<rparr>,
         (GameState_ctor 4)\<lparr>chosenWord := ''ZEBRA'', chosenHint := ''AFRICAN ANIMAL''\<rparr>)"
  by code_simp

subsection \<open>C8: the win and loss rates\<close>



text \<open>
  The same rates when \<^verbatim>\<open>endGameDisplay\<close> counts a third win. One round won and two
  lost: the stored rates are the binary64 values next to a third and two thirds of 100,
  which \<^verbatim>\<open>cout\<close> shows as 33.3333 and 66.6667, and they do not add up to 100.
\<close>

lemma endGameDisplay_third_win:
  "wonRounds (endGameDisplay ((GameState_ctor 8)\<lparr>wordGuessed := True, wonRounds := 2, lostRounds := 1\<rparr>)) = 3
   \<and> winRate (endGameDisplay ((GameState_ctor 8)\<lparr>wordGuessed := True, wonRounds := 2, lostRounds := 1\<rparr>)) = 75
   \<and> lossRate (endGameDisplay ((GameState_ctor 8)\<lparr>wordGuessed := True, wonRounds := 2, lostRounds := 1\<rparr>)) = 25"
  by code_simp

lemma gameStats_one_won_two_lost:
  "winRate (gameStats ((GameState_ctor 8)\<lparr>wonRounds := 1, lostRounds := 2\<rparr>))
     = 2345624805922133 / 70368744177664
   \<and> lossRate (gameStats ((GameState_ctor 8)\<lparr>wonRounds := 1, lostRounds := 2\<rparr>))
     = 2345624805922133 / 35184372088832
   \<and> winRate (endGameDisplay ((GameState_ctor 8)\<lparr>wonRounds := 1, lostRounds := 2\<rparr>))
     = 2345624805922133 / 70368744177664
   \<and> lossRate (endGameDisplay ((GameState_ctor 8)\<lparr>wonRounds := 1, lostRounds := 2\<rparr>))
     = 2345624805922133 / 35184372088832
   \<and> winRate (gameStats ((GameState_ctor 8)\<lparr>wonRounds := 1, lostRounds := 2\<rparr>))
       + lossRate (gameStats ((GameState_ctor 8)\<lparr>wonRounds := 1, lostRounds := 2\<rparr>)) \<noteq> 100"
  by code_simp

subsection \<open>C9: what is displayed\<close>

text \<open>
  Claim C9. The hint line shows nothing after its label while \<^verbatim>\<open>incorrectGuesses\<close> is
  0 and the hint of the round otherwise. The word line has two characters for each
  character of the target: the character itself when it is among the guessed letters
  and the underscore when it is not, then a blank.
\<close>

theorem display_projection:
  "hintLine (displayGameState s) =
     ''Hint: '' @ (if incorrectGuesses s = 0 then [] else chosenHint s)
   \<and> length (wordLine (displayGameState s)) = 2 * length (chosenWord s)
   \<and> (\<forall>i < length (chosenWord s).
        wordLine (displayGameState s) ! (2 * i) =
          (if chosenWord s ! i \<in> set (guessedLetters s) then chosenWord s ! i else CHR ''_'')
        \<and> wordLine (displayGameState s) ! (2 * i + 1) = CHR '' '')"
  by (simp add: displayGameState_def wordLine_nth wordLine_length)

text \<open>
  Target \<^verbatim>\<open>CAT\<close> with the hint \<^verbatim>\<open>PET\<close>: no hint after the right letter \<^verbatim>\<open>A\<close>, the
  hint after the wrong letter \<^verbatim>\<open>X\<close>; the \<^verbatim>\<open>A\<close> is shown and the \<^verbatim>\<open>C\<close> is not.
\<close>

theorem display_projection_witness:
  "hintLine (displayGameState ((GameState_ctor 8)\<lparr>chosenWord := ''CAT'', chosenHint := ''PET'',
       guessedLetters := ''A''\<rparr>)) = ''Hint: ''
   \<and> hintLine (displayGameState ((GameState_ctor 8)\<lparr>chosenWord := ''CAT'', chosenHint := ''PET'',
       guessedLetters := ''AX'', incorrectGuesses := 1\<rparr>)) = ''Hint: PET''
   \<and> (1::nat) < length (chosenWord ((GameState_ctor 8)\<lparr>chosenWord := ''CAT'', chosenHint := ''PET'',
       guessedLetters := ''A''\<rparr>))
   \<and> wordLine (displayGameState ((GameState_ctor 8)\<lparr>chosenWord := ''CAT'', chosenHint := ''PET'',
       guessedLetters := ''A''\<rparr>)) ! (2 * 1) = CHR ''A''
   \<and> wordLine (displayGameState ((GameState_ctor 8)\<lparr>chosenWord := ''CAT'', chosenHint := ''PET'',
       guessedLetters := ''A''\<rparr>)) ! (2 * 0) = CHR ''_''"
  using display_projection [of "(GameState_ctor 8)\<lparr>chosenWord := ''CAT'', chosenHint := ''PET'',
            guessedLetters := ''A''\<rparr>", THEN conjunct1]
        display_projection [of "(GameState_ctor 8)\<lparr>chosenWord := ''CAT'', chosenHint := ''PET'',
            guessedLetters := ''AX'', incorrectGuesses := 1\<rparr>", THEN conjunct1]
        display_projection [of "(GameState_ctor 8)\<lparr>chosenWord := ''CAT'', chosenHint := ''PET'',
            guessedLetters := ''A''\<rparr>", THEN conjunct2, THEN conjunct2, THEN spec, of 1]
        display_projection [of "(GameState_ctor 8)\<lparr>chosenWord := ''CAT'', chosenHint := ''PET'',
            guessedLetters := ''A''\<rparr>", THEN conjunct2, THEN conjunct2, THEN spec, of 0]
  by (simp add: GameState_ctor_def)

lemma displayGameState_cat:
  "wordLine (displayGameState ((GameState_ctor 8)\<lparr>chosenWord := ''CAT'', chosenHint := ''PET'',
       guessedLetters := ''A''\<rparr>)) = ''_ A _ ''"
  by code_simp

subsection \<open>C10: the guessed letters\<close>

text \<open>
  Claim C10. If no letter is repeated among the guessed letters, as at the start of a
  round, none is after any sequence of letter guesses; the guessed letters before are a
  prefix of the guessed letters after; and one guess appends the guessed letter when it
  is new and nothing when it is not.
\<close>

theorem guessedLetters_distinct_monotone:
  assumes "distinct (guessedLetters s)"
  shows "distinct (guessedLetters (guessLetters s cs))
       \<and> prefix (guessedLetters s) (guessedLetters (guessLetters s cs))
       \<and> guessedLetters (fst (handleCharacterGuess s c)) =
           (if c \<in> set (guessedLetters s) then guessedLetters s else guessedLetters s @ [c])"
  using assms guessLetters_distinct guessLetters_prefix handleCharacterGuess_guessed by blast

theorem guessedLetters_distinct_monotone_witness:
  "distinct (guessedLetters ((GameState_ctor 8)\<lparr>chosenWord := ''CAT''\<rparr>))
   \<and> distinct (guessedLetters (guessLetters ((GameState_ctor 8)\<lparr>chosenWord := ''CAT''\<rparr>) ''AXAC''))
   \<and> guessedLetters (fst (handleCharacterGuess ((GameState_ctor 8)\<lparr>chosenWord := ''CAT''\<rparr>)
        (CHR ''A''))) = ''A''"
  using guessedLetters_distinct_monotone
          [of "(GameState_ctor 8)\<lparr>chosenWord := ''CAT''\<rparr>" "''AXAC''" "CHR ''A''"]
  by (simp add: GameState_ctor_def)

lemma guessLetters_axac:
  "guessedLetters (guessLetters ((GameState_ctor 8)\<lparr>chosenWord := ''CAT''\<rparr>) ''AXAC'') = ''AXC''"
  by code_simp

text \<open>A full-word guess leaves the guessed letters as they are.\<close>

lemma wordGuess_guessedLetters:
  "guessedLetters (fst (wordGuess s fullGuess)) = guessedLetters s"
  by (simp add: wordGuess_def)

end
